theory Spec2Isabelle
  imports Main "HOL-Library.AList"
begin

section \<open>Values and objects of the dashboard page\<close>

text \<open>
  The page \<^verbatim>\<open>src/app/page.tsx\<close> handles values that come out of the realtime
  database untyped (\<^verbatim>\<open>childSnapshot.val()\<close> is \<^verbatim>\<open>any\<close>), so the
  model keeps them dynamic. A number is an integer here (timestamps and counters);
  fractional numbers are not modelled. An object is the list of its own properties:
  a property that is written again keeps its place and takes the new value.
\<close>

datatype jsval =
    JUndefined
  | JBool bool
  | JNum int
  | JStr string
  | JObj "(string \<times> jsval) list"

type_synonym obj = "(string \<times> jsval) list"

text \<open>Property read \<^verbatim>\<open>o.f\<close>: \<^verbatim>\<open>undefined\<close> when the property is absent.\<close>

definition field :: "obj \<Rightarrow> string \<Rightarrow> jsval" where
  "field ob f = (case map_of ob f of None \<Rightarrow> JUndefined | Some v \<Rightarrow> v)"

text \<open>
  Copying the properties of \<open>src\<close> onto \<open>tgt\<close>, in order: what an object spread
  \<^verbatim>\<open>{...tgt, ...src}\<close> and a merging write both do.
\<close>

definition assign :: "obj \<Rightarrow> obj \<Rightarrow> obj" where
  "assign tgt src = fold (\<lambda>(k, v). AList.update k v) src tgt"

text \<open>Truthiness, and the operator \<^verbatim>\<open>a || b\<close>.\<close>

fun truthy :: "jsval \<Rightarrow> bool" where
  "truthy JUndefined = False"
| "truthy (JBool b) = b"
| "truthy (JNum n) = (n \<noteq> 0)"
| "truthy (JStr s) = (s \<noteq> [])"
| "truthy (JObj fs) = True"

definition js_or :: "jsval \<Rightarrow> jsval \<Rightarrow> jsval" where
  "js_or a b = (if truthy a then a else b)"

text \<open>Decimal digits of a natural number, for numbers inside template literals.\<close>

definition digit_char :: "nat \<Rightarrow> char" where
  "digit_char d = ''0123456789'' ! (d mod 10)"

fun dec_nat :: "nat \<Rightarrow> string" where
  "dec_nat n = (if n < 10 then [digit_char n] else dec_nat (n div 10) @ [digit_char (n mod 10)])"

declare dec_nat.simps [simp del]

definition dec_int :: "int \<Rightarrow> string" where
  "dec_int i = (if i < 0 then CHR ''-'' # dec_nat (nat (- i)) else dec_nat (nat i))"

text \<open>The string a value turns into inside a template literal \<^verbatim>\<open>`...${v}...`\<close>.\<close>

fun to_string :: "jsval \<Rightarrow> string" where
  "to_string JUndefined = ''undefined''"
| "to_string (JBool b) = (if b then ''true'' else ''false'')"
| "to_string (JNum n) = dec_int n"
| "to_string (JStr s) = s"
| "to_string (JObj fs) = ''[object Object]''"

text \<open>
  The own enumerable properties that a spread \<^verbatim>\<open>...v\<close> copies: the fields of an
  object, the indexed characters of a string, nothing for the other primitives.
\<close>

fun spread :: "jsval \<Rightarrow> obj" where
  "spread (JObj fs) = fs"
| "spread (JStr s) = zip (map dec_nat [0..<length s]) (map (\<lambda>c. JStr [c]) s)"
| "spread v = []"

section \<open>The state of the page and of its surroundings\<close>

record Stats =
  totalUsers :: nat
  totalReports :: nat
  resolvedReports :: nat

text \<open>
  The six \<^verbatim>\<open>useState\<close> cells of \<^verbatim>\<open>AdminDashboard\<close>, followed by what the
  page acts on outside itself: the remote store (the record stored at each path the
  page writes to), the lines sent to \<^verbatim>\<open>console.error\<close> and the \<^verbatim>\<open>alert\<close>
  boxes shown.
\<close>

record dashboard =
  reports :: "obj list"
  stats :: Stats
  loading :: bool
  error :: "string option"
  selectedReport :: "obj option"
  responseText :: jsval
  remote :: "string \<rightharpoonup> obj"
  console :: "string list"
  alerts :: "string list"

definition initial :: dashboard where
  "initial = \<lparr> reports = [], stats = \<lparr> totalUsers = 0, totalReports = 0, resolvedReports = 0 \<rparr>,
     loading = True, error = None, selectedReport = None, responseText = JStr [],
     remote = Map.empty, console = [], alerts = [] \<rparr>"

text \<open>
  The two write primitives of \<^verbatim>\<open>firebase/database\<close> that the page calls:
  \<^verbatim>\<open>update\<close> merges the given fields into the record at the path (creating it when
  absent), \<^verbatim>\<open>set\<close> replaces the record at the path.
\<close>

definition db_update :: "string \<Rightarrow> obj \<Rightarrow> (string \<rightharpoonup> obj) \<Rightarrow> (string \<rightharpoonup> obj)" where
  "db_update p fs db = db(p \<mapsto> assign (case db p of None \<Rightarrow> [] | Some ob \<Rightarrow> ob) fs)"

definition db_set :: "string \<Rightarrow> obj \<Rightarrow> (string \<rightharpoonup> obj) \<Rightarrow> (string \<rightharpoonup> obj)" where
  "db_set p ob db = db(p \<mapsto> ob)"

text \<open>
  Whether the remote store carries out a write is decided outside the page (access rules,
  connectivity): each remote call takes its outcome as an input. \<open>Rejected\<close> stands for
  the awaited promise rejecting, which lands in the \<^verbatim>\<open>catch\<close> block of the caller.
\<close>

datatype outcome = Accepted | Rejected

text \<open>How an \<^verbatim>\<open>async\<close> function that may throw ends: normally, or by throwing a message.\<close>

datatype completion = Normal dashboard | Thrown string dashboard

section \<open>The listeners set up by \<^verbatim>\<open>fetchData\<close>\<close>

text \<open>
  A snapshot of a collection is the list of its children, each a key and a value, in the
  order \<^verbatim>\<open>forEach\<close> visits them; \<^verbatim>\<open>snapshot.size\<close> is their number.
\<close>

type_synonym snapshot = "(string \<times> jsval) list"

text \<open>The object literal \<^verbatim>\<open>{ id: childSnapshot.key, ...childSnapshot.val() }\<close>.\<close>

definition materialize :: "string \<Rightarrow> jsval \<Rightarrow> obj" where
  "materialize key val = assign [(''id'', JStr key)] (spread val)"

definition onReportsValue :: "snapshot \<Rightarrow> dashboard \<Rightarrow> dashboard" where
  "onReportsValue snap s =
     (let reportsData = map (\<lambda>(key, val). materialize key val) snap
      in s\<lparr> reports := reportsData,
            stats := (stats s)\<lparr> totalReports := length reportsData \<rparr> \<rparr>)"

definition onReportsError :: "dashboard \<Rightarrow> dashboard" where
  "onReportsError s =
     s\<lparr> console := console s @ [''Error fetching reports:''],
        error := Some ''Unable to fetch reports. Please check your permissions.'' \<rparr>"

definition onUsersValue :: "snapshot \<Rightarrow> dashboard \<Rightarrow> dashboard" where
  "onUsersValue snap s = s\<lparr> stats := (stats s)\<lparr> totalUsers := length snap \<rparr> \<rparr>"

definition onUsersError :: "dashboard \<Rightarrow> dashboard" where
  "onUsersError s = s\<lparr> console := console s @ [''Error fetching users:''] \<rparr>"

definition onResolvedValue :: "snapshot \<Rightarrow> dashboard \<Rightarrow> dashboard" where
  "onResolvedValue snap s = s\<lparr> stats := (stats s)\<lparr> resolvedReports := length snap \<rparr> \<rparr>"

definition onResolvedError :: "dashboard \<Rightarrow> dashboard" where
  "onResolvedError s = s\<lparr> console := console s @ [''Error fetching resolved reports:''] \<rparr>"

section \<open>The handlers\<close>

text \<open>
  \<^verbatim>\<open>toggleResolveStatus\<close> catches a rejected update itself and returns normally in
  both cases. \<open>now\<close> is the value of \<^verbatim>\<open>Date.now()\<close>; an omitted \<open>response\<close> is
  \<open>JUndefined\<close>.
\<close>

definition toggleResolveStatus ::
  "outcome \<Rightarrow> int \<Rightarrow> jsval \<Rightarrow> jsval \<Rightarrow> jsval \<Rightarrow> dashboard \<Rightarrow> dashboard" where
  "toggleResolveStatus oc now reportId currentStatus response s =
     (case oc of
        Accepted \<Rightarrow>
          s\<lparr> remote := db_update (''reports/'' @ to_string reportId)
                [(''status'', if currentStatus = JStr ''resolved'' then JStr ''pending''
                              else JStr ''resolved''),
                 (''response'', js_or response (JStr '''')),
                 (''resolvedAt'', JNum now)]
                (remote s) \<rparr>
      | Rejected \<Rightarrow>
          s\<lparr> console := console s @ [''Error updating report status:''],
             error := Some ''Unable to update report status. Please check your permissions.'' \<rparr>)"

text \<open>\<^verbatim>\<open>sendNotificationToUser\<close> logs a rejected write and throws a new error.\<close>

definition notification :: "int \<Rightarrow> jsval \<Rightarrow> jsval \<Rightarrow> obj" where
  "notification now reportId response =
     [(''type'', JStr ''report_response''),
      (''message'', JStr (''Your report (ID: '' @ to_string reportId @ '') has been responded to.'')),
      (''response'', response),
      (''createdAt'', JNum now),
      (''read'', JBool False)]"

definition notificationPath :: "jsval \<Rightarrow> jsval \<Rightarrow> string" where
  "notificationPath userId reportId =
     ''users/'' @ to_string userId @ ''/notifications/'' @ to_string reportId"

definition sendNotificationToUser ::
  "outcome \<Rightarrow> int \<Rightarrow> jsval \<Rightarrow> jsval \<Rightarrow> jsval \<Rightarrow> dashboard \<Rightarrow> completion" where
  "sendNotificationToUser oc now userId reportId response s =
     (case oc of
        Accepted \<Rightarrow>
          Normal (s\<lparr> remote := db_set (notificationPath userId reportId)
                        (notification now reportId response) (remote s) \<rparr>)
      | Rejected \<Rightarrow>
          Thrown ''Failed to send notification.''
            (s\<lparr> console := console s @ [''Error sending notification:''] \<rparr>))"

definition handleReportClick :: "obj \<Rightarrow> dashboard \<Rightarrow> dashboard" where
  "handleReportClick report s =
     s\<lparr> selectedReport := Some report,
        responseText := js_or (field report ''response'') (JStr '''') \<rparr>"

text \<open>
  \<^verbatim>\<open>handleResponseSubmit\<close>: \<open>ocA\<close>, \<open>nowA\<close> are the outcome and the clock of the
  status update, \<open>ocB\<close>, \<open>nowB\<close> those of the notification write. The handler reads
  \<^verbatim>\<open>selectedReport\<close> and \<^verbatim>\<open>responseText\<close> as they were when it was called.
\<close>

definition handleResponseSubmit ::
  "outcome \<Rightarrow> int \<Rightarrow> outcome \<Rightarrow> int \<Rightarrow> dashboard \<Rightarrow> dashboard" where
  "handleResponseSubmit ocA nowA ocB nowB s =
     (case selectedReport s of
        None \<Rightarrow> s
      | Some r \<Rightarrow>
          (let s1 = toggleResolveStatus ocA nowA (field r ''id'') (field r ''status'')
                      (responseText s) s
           in case sendNotificationToUser ocB nowB (field r ''userId'') (field r ''id'')
                     (responseText s) s1 of
                Normal s2 \<Rightarrow> s2\<lparr> selectedReport := None, responseText := JStr '''' \<rparr>
              | Thrown msg s2 \<Rightarrow>
                  s2\<lparr> console := console s2 @ [''Error submitting response:''],
                      error := Some ''Failed to submit response. Please try again.'' \<rparr>))"

definition handleBlockUser :: "outcome \<Rightarrow> jsval \<Rightarrow> dashboard \<Rightarrow> dashboard" where
  "handleBlockUser oc userId s =
     (case oc of
        Accepted \<Rightarrow>
          s\<lparr> remote := db_update (''users/'' @ to_string userId) [(''blocked'', JBool True)]
                         (remote s),
             alerts := alerts s @ [''User blocked successfully''] \<rparr>
      | Rejected \<Rightarrow>
          s\<lparr> console := console s @ [''Error blocking user:''],
             error := Some ''Unable to block user. Please check your permissions.'' \<rparr>)"

text \<open>The derived constant \<^verbatim>\<open>communityChartData\<close>, computed from the report list.\<close>

definition communityChartData :: "obj list \<Rightarrow> obj list" where
  "communityChartData rs =
     map (\<lambda>report. [(''name'', field report ''name''), (''reports'', JNum 1)])
       (filter (\<lambda>report. field report ''matterType'' = JStr ''Community'') rs)"

section \<open>Properties\<close>

subsection \<open>Reading objects after a write\<close>

lemma field_update: "field (AList.update k v ob) f = (if f = k then v else field ob f)"
  by (simp add: field_def update_conv')

lemma assign_Nil: "assign tgt [] = tgt"
  by (simp add: assign_def)

lemma assign_Cons: "assign tgt ((k, v) # src) = assign (AList.update k v tgt) src"
  by (simp add: assign_def)

lemma field_assign_other: "f \<notin> fst ` set src \<Longrightarrow> field (assign tgt src) f = field tgt f"
proof (induction src arbitrary: tgt)
  case Nil
  then show ?case by (simp add: assign_Nil)
next
  case (Cons p src)
  obtain k v where p: "p = (k, v)" by (cases p)
  from Cons.prems p have "f \<noteq> k" and "f \<notin> fst ` set src" by auto
  with Cons.IH [of "AList.update k v tgt"] p show ?case
    by (simp add: assign_Cons field_update)
qed

subsection \<open>The reports listener\<close>

text \<open>
  A stored object without a field named \<open>id\<close> is materialized with the collection key
  as its \<open>id\<close>.
\<close>

lemma materialize_id_without_payload_id:
  "''id'' \<notin> fst ` set fs \<Longrightarrow> field (materialize key (JObj fs)) ''id'' = JStr key"
proof -
  assume "''id'' \<notin> fst ` set fs"
  then have "field (assign [(''id'', JStr key)] fs) ''id'' = field [(''id'', JStr key)] ''id''"
    by (rule field_assign_other)
  then show ?thesis by (simp add: materialize_def field_def)
qed

text \<open>
  C1. The identity of a materialized report against a payload that has a field named
  \<open>id\<close>: the child stored under the key \<open>k1\<close> with the value
  \<^verbatim>\<open>{id: "x9", name: "Ann"}\<close> is materialized with \<open>id = x9\<close>, the payload's
  field and not the collection key, because the spread comes after the \<open>id\<close> property
  in the object literal. The report list built from that snapshot holds this record.
\<close>

theorem payload_id_overrides_key:
  "field (materialize ''k1'' (JObj [(''id'', JStr ''x9''), (''name'', JStr ''Ann'')])) ''id''
     = JStr ''x9''
   \<and> reports (onReportsValue [(''k1'', JObj [(''id'', JStr ''x9''), (''name'', JStr ''Ann'')])]
        initial)
       = [[(''id'', JStr ''x9''), (''name'', JStr ''Ann'')]]"
  by (simp add: materialize_def onReportsValue_def assign_Cons assign_Nil field_def)

text \<open>
  C5. Processing a snapshot of the reports stream replaces the report list by the list
  built from that snapshot alone, whatever the list was before (two different prior
  states give the same list), one record per child; it sets \<open>totalReports\<close> to the
  length of the new list and keeps the two other counters.
\<close>

theorem reports_snapshot_replaces_list:
  "reports (onReportsValue snap s) = map (\<lambda>(key, val). materialize key val) snap
   \<and> reports (onReportsValue snap s) = reports (onReportsValue snap s')
   \<and> length (reports (onReportsValue snap s)) = length snap
   \<and> totalReports (stats (onReportsValue snap s)) = length (reports (onReportsValue snap s))
   \<and> totalUsers (stats (onReportsValue snap s)) = totalUsers (stats s)
   \<and> resolvedReports (stats (onReportsValue snap s)) = resolvedReports (stats s)"
  by (simp add: onReportsValue_def Let_def)

text \<open>
  C4. Faults on the three streams, from the initial state: the error callbacks of the
  users stream and of the resolved-reports stream leave the error slot empty and only
  add a line to the console, while the error callback of the reports stream fills the
  error slot.
\<close>

theorem count_stream_faults_only_logged:
  "error (onUsersError initial) = None
   \<and> console (onUsersError initial) = [''Error fetching users:'']
   \<and> error (onResolvedError initial) = None
   \<and> console (onResolvedError initial) = [''Error fetching resolved reports:'']
   \<and> error (onReportsError initial)
       = Some ''Unable to fetch reports. Please check your permissions.''"
  by (simp add: onUsersError_def onResolvedError_def onReportsError_def initial_def)

subsection \<open>The resolution workflow\<close>

text \<open>
  C3. When the status update is accepted, the record at \<open>reports/<reportId>\<close> has
  status \<open>pending\<close> if the status passed in was \<open>resolved\<close> and \<open>resolved\<close>
  otherwise, whatever the response text; its response is the text passed in, or the
  empty string when none was passed; and its \<open>resolvedAt\<close> is the current time in both
  directions.
\<close>

theorem toggle_step_A:
  "\<exists>r. remote (toggleResolveStatus Accepted now reportId currentStatus response s)
          (''reports/'' @ to_string reportId) = Some r
     \<and> (currentStatus = JStr ''resolved'' \<longrightarrow> field r ''status'' = JStr ''pending'')
     \<and> (currentStatus \<noteq> JStr ''resolved'' \<longrightarrow> field r ''status'' = JStr ''resolved'')
     \<and> (\<forall>t. response = JStr t \<longrightarrow> field r ''response'' = JStr t)
     \<and> (response = JUndefined \<longrightarrow> field r ''response'' = JStr '''')
     \<and> field r ''resolvedAt'' = JNum now"
  by (simp add: toggleResolveStatus_def db_update_def assign_Cons assign_Nil field_update js_or_def)

text \<open>An accepted update of the pending report \<open>r1\<close> with the response \<open>ok\<close> at time 1700.\<close>

theorem toggle_step_A_witness:
  "\<exists>r. remote (toggleResolveStatus Accepted 1700 (JStr ''r1'') (JStr ''pending'') (JStr ''ok'')
                 initial) ''reports/r1'' = Some r
     \<and> field r ''status'' = JStr ''resolved''
     \<and> field r ''response'' = JStr ''ok''
     \<and> field r ''resolvedAt'' = JNum 1700"
  using toggle_step_A [of 1700 "JStr ''r1''" "JStr ''pending''" "JStr ''ok''" initial]
  by simp

text \<open>
  C2. A rejected status update followed by the notification write: with the report
  \<open>r1\<close> of user \<open>u1\<close> selected, the status update rejected and the notification
  write accepted, the handler still writes the notification record at
  \<open>users/u1/notifications/r1\<close>, which was absent before, while nothing is stored at
  \<open>reports/r1\<close>.
\<close>

theorem notification_sent_after_failed_update:
  "remote (handleResponseSubmit Rejected 10 Accepted 11
      (handleReportClick
         [(''id'', JStr ''r1''), (''status'', JStr ''pending''), (''userId'', JStr ''u1'')]
         initial)) ''users/u1/notifications/r1''
     = Some [(''type'', JStr ''report_response''),
             (''message'', JStr ''Your report (ID: r1) has been responded to.''),
             (''response'', JStr ''''),
             (''createdAt'', JNum 11),
             (''read'', JBool False)]
   \<and> remote (handleResponseSubmit Rejected 10 Accepted 11
      (handleReportClick
         [(''id'', JStr ''r1''), (''status'', JStr ''pending''), (''userId'', JStr ''u1'')]
         initial)) ''reports/r1'' = None
   \<and> remote initial ''users/u1/notifications/r1'' = None"
  by (simp add: handleResponseSubmit_def handleReportClick_def toggleResolveStatus_def
      sendNotificationToUser_def db_set_def notificationPath_def notification_def
      field_def js_or_def initial_def)

text \<open>
  C6. With a report selected, the status update accepted and the notification write
  rejected: the record at \<open>reports/<id>\<close> carries the toggled status, the response and
  the time of the update; the remote store is exactly as the status update left it
  (nothing is undone); the error slot holds the submit failure message and the report
  stays selected, whereas on overall success the selection is cleared and the error slot
  is not touched, so the two resulting states differ.
\<close>

theorem notification_failure_keeps_status:
  assumes sel: "selectedReport s = Some r"
  shows "(\<exists>rep. remote (handleResponseSubmit Accepted nowA Rejected nowB s)
              (''reports/'' @ to_string (field r ''id'')) = Some rep
            \<and> field rep ''status''
                = (if field r ''status'' = JStr ''resolved'' then JStr ''pending''
                   else JStr ''resolved'')
            \<and> field rep ''response'' = js_or (responseText s) (JStr '''')
            \<and> field rep ''resolvedAt'' = JNum nowA)
     \<and> remote (handleResponseSubmit Accepted nowA Rejected nowB s)
         = remote (toggleResolveStatus Accepted nowA (field r ''id'') (field r ''status'')
                     (responseText s) s)
     \<and> error (handleResponseSubmit Accepted nowA Rejected nowB s)
         = Some ''Failed to submit response. Please try again.''
     \<and> selectedReport (handleResponseSubmit Accepted nowA Rejected nowB s) = Some r
     \<and> selectedReport (handleResponseSubmit Accepted nowA Accepted nowB s) = None
     \<and> error (handleResponseSubmit Accepted nowA Accepted nowB s) = error s
     \<and> handleResponseSubmit Accepted nowA Rejected nowB s
         \<noteq> handleResponseSubmit Accepted nowA Accepted nowB s"
proof -
  let ?f = "handleResponseSubmit Accepted nowA Rejected nowB s"
  let ?g = "handleResponseSubmit Accepted nowA Accepted nowB s"
  have kept: "selectedReport ?f = Some r"
    using sel
    by (simp add: handleResponseSubmit_def sendNotificationToUser_def toggleResolveStatus_def)
  have cleared: "selectedReport ?g = None"
    using sel
    by (simp add: handleResponseSubmit_def sendNotificationToUser_def toggleResolveStatus_def)
  have differ: "?f \<noteq> ?g"
  proof
    assume "?f = ?g"
    then have "selectedReport ?f = selectedReport ?g" by simp
    with kept cleared show False by simp
  qed
  have store: "remote ?f = remote (toggleResolveStatus Accepted nowA (field r ''id'')
                     (field r ''status'') (responseText s) s)"
    using sel by (simp add: handleResponseSubmit_def sendNotificationToUser_def Let_def)
  have report: "\<exists>rep. remote ?f (''reports/'' @ to_string (field r ''id'')) = Some rep
            \<and> field rep ''status''
                = (if field r ''status'' = JStr ''resolved'' then JStr ''pending''
                   else JStr ''resolved'')
            \<and> field rep ''response'' = js_or (responseText s) (JStr '''')
            \<and> field rep ''resolvedAt'' = JNum nowA"
    unfolding store
    by (simp add: toggleResolveStatus_def db_update_def assign_Cons assign_Nil field_update)
  have surfaced: "error ?f = Some ''Failed to submit response. Please try again.''"
    using sel
    by (simp add: handleResponseSubmit_def sendNotificationToUser_def toggleResolveStatus_def)
  have silent: "error ?g = error s"
    using sel
    by (simp add: handleResponseSubmit_def sendNotificationToUser_def toggleResolveStatus_def)
  from kept cleared differ store report surfaced silent show ?thesis by blast
qed

text \<open>
  The pending report \<open>r1\<close> of user \<open>u1\<close> is clicked, then submitted with the status
  update accepted and the notification write rejected.
\<close>

theorem notification_failure_keeps_status_witness:
  "(\<exists>rep. remote (handleResponseSubmit Accepted 7 Rejected 8
                (handleReportClick
                   [(''id'', JStr ''r1''), (''status'', JStr ''pending''), (''userId'', JStr ''u1'')]
                   initial)) ''reports/r1'' = Some rep
          \<and> field rep ''status'' = JStr ''resolved'')
   \<and> error (handleResponseSubmit Accepted 7 Rejected 8
        (handleReportClick
           [(''id'', JStr ''r1''), (''status'', JStr ''pending''), (''userId'', JStr ''u1'')]
           initial)) = Some ''Failed to submit response. Please try again.''"
proof -
  let ?r = "[(''id'', JStr ''r1''), (''status'', JStr ''pending''), (''userId'', JStr ''u1'')]"
  have h: "selectedReport (handleReportClick ?r initial) = Some ?r"
    by (simp add: handleReportClick_def)
  have i: "field ?r ''id'' = JStr ''r1''" "field ?r ''status'' = JStr ''pending''"
    by (simp_all add: field_def)
  show ?thesis
    using notification_failure_keeps_status [OF h, of 7 8] by (auto simp: i)
qed

text \<open>
  C9. An accepted notification write stores, at the key
  \<open>users/<userId>/notifications/<reportId>\<close>, the record with the message naming the
  report id, the response passed in, the current time and \<open>read = false\<close>, and adds
  no other key. A second accepted write for the same user and report replaces that
  record: the set of keys does not grow, and the store is the one that the second write
  alone would have produced.
\<close>

theorem notification_written:
  "(\<exists>s'. sendNotificationToUser Accepted now userId reportId response s = Normal s'
      \<and> remote s' (''users/'' @ to_string userId @ ''/notifications/'' @ to_string reportId)
          = Some [(''type'', JStr ''report_response''),
                  (''message'', JStr (''Your report (ID: '' @ to_string reportId
                                       @ '') has been responded to.'')),
                  (''response'', response),
                  (''createdAt'', JNum now),
                  (''read'', JBool False)]
      \<and> dom (remote s')
          = insert (''users/'' @ to_string userId @ ''/notifications/'' @ to_string reportId)
              (dom (remote s))
      \<and> (\<exists>s''. sendNotificationToUser Accepted now' userId reportId response' s' = Normal s''
            \<and> remote s'' (''users/'' @ to_string userId @ ''/notifications/''
                            @ to_string reportId)
                = Some (notification now' reportId response')
            \<and> dom (remote s'') = dom (remote s')
            \<and> sendNotificationToUser Accepted now' userId reportId response' s = Normal s''))"
  by (simp add: sendNotificationToUser_def db_set_def notificationPath_def notification_def
      insert_absorb)

text \<open>
  C10. With no report selected, submitting returns the state as it was: the remote store,
  the console, the error slot, the selection, the draft text, the report list and the
  counters are all unchanged, whatever the remote store would have answered.
\<close>

theorem submit_without_selection:
  "selectedReport s = None \<Longrightarrow> handleResponseSubmit ocA nowA ocB nowB s = s"
  by (simp add: handleResponseSubmit_def)

text \<open>Nothing is selected in the initial state.\<close>

theorem submit_without_selection_witness:
  "selectedReport initial = None \<and> handleResponseSubmit Rejected 1 Accepted 2 initial = initial"
proof -
  have h: "selectedReport initial = None" by (simp add: initial_def)
  show ?thesis using h submit_without_selection [OF h, of Rejected 1 Accepted 2] by simp
qed

subsection \<open>Blocking a user\<close>

text \<open>
  C8. An accepted block stores \<open>blocked = true\<close> in the record at \<open>users/<userId>\<close>.
  A second accepted block leaves the remote store as the first one left it, with
  \<open>blocked = true\<close> still, and neither call touches the error slot or the console.
\<close>

theorem block_user_idempotent:
  "remote (handleBlockUser Accepted userId (handleBlockUser Accepted userId s))
     = remote (handleBlockUser Accepted userId s)
   \<and> (\<exists>u. remote (handleBlockUser Accepted userId s) (''users/'' @ to_string userId) = Some u
          \<and> field u ''blocked'' = JBool True)
   \<and> (\<exists>u. remote (handleBlockUser Accepted userId (handleBlockUser Accepted userId s))
            (''users/'' @ to_string userId) = Some u
          \<and> field u ''blocked'' = JBool True)
   \<and> error (handleBlockUser Accepted userId (handleBlockUser Accepted userId s)) = error s
   \<and> console (handleBlockUser Accepted userId (handleBlockUser Accepted userId s)) = console s"
  by (simp add: handleBlockUser_def db_update_def assign_Cons assign_Nil field_update)

subsection \<open>The community chart\<close>

text \<open>
  C7. The chart data is a function of the report list alone. Its entries are, in list
  order, one per report whose \<open>matterType\<close> is the string \<open>Community\<close>: the names are
  the names of those reports, every \<open>reports\<close> value is 1, every entry has exactly the
  two properties \<open>name\<close> and \<open>reports\<close>, there are as many entries as such reports
  (so reports sharing a name stay separate), and the chart of two lists put together is
  the two charts put together.
\<close>

theorem community_chart:
  "map (\<lambda>e. field e ''name'') (communityChartData rs)
     = map (\<lambda>r. field r ''name'') (filter (\<lambda>r. field r ''matterType'' = JStr ''Community'') rs)
   \<and> map (\<lambda>e. field e ''reports'') (communityChartData rs)
     = replicate (length (filter (\<lambda>r. field r ''matterType'' = JStr ''Community'') rs)) (JNum 1)
   \<and> map (map fst) (communityChartData rs)
     = replicate (length (filter (\<lambda>r. field r ''matterType'' = JStr ''Community'') rs))
         [''name'', ''reports'']
   \<and> length (communityChartData rs)
     = length (filter (\<lambda>r. field r ''matterType'' = JStr ''Community'') rs)
   \<and> communityChartData (rs @ rs') = communityChartData rs @ communityChartData rs'"
  by (simp add: communityChartData_def field_def comp_def map_replicate_const)

end
